theory Spec2Isabelle
  imports Main "HOL-Library.Sublist"
begin

section \<open>Python values and the Kubernetes objects the program reads\<close>

text \<open>
  The program is \<^verbatim>\<open>app.py\<close>: a Gradio chat that reads a pod, its events and its logs
  from a Kubernetes cluster, composes a prompt and sends it to a completion service.

  \<^verbatim>\<open>pod_info.to_dict()\<close> is a nested Python dictionary. A dictionary is an association
  list (insertion order, keys unique in what Python builds); the other values are the
  ones a client model renders.
\<close>

datatype pyval =
    VNone
  | VBool bool
  | VInt int
  | VStr string
  | VList "pyval list"
  | VDict "(string \<times> pyval) list"

type_synonym pydict = "(string \<times> pyval) list"

text \<open>The exceptions the code can raise: a failed cluster read, a failed completion
  call, a missing dictionary key, an item assignment on a value that is no dictionary.\<close>

datatype error =
    ApiException int
  | OpenAIError
  | KeyError string
  | TypeError

text \<open>\<^verbatim>\<open>d[k] = v\<close> on a dictionary: an existing key keeps its place and gets the new value,
  a new key is added at the end.\<close>

fun dict_set :: "(string \<times> 'v) list \<Rightarrow> string \<Rightarrow> 'v \<Rightarrow> (string \<times> 'v) list" where
  "dict_set [] k v = [(k, v)]"
| "dict_set ((k', v') # kvs) k v =
     (if k' = k then (k, v) # kvs else (k', v') # dict_set kvs k v)"

text \<open>An event as the cluster returns it (\<^verbatim>\<open>V1Event\<close>): the four attributes the code
  reads. Each is optional in the client's model, \<^verbatim>\<open>None\<close> when the server left it out.\<close>

record event =
  metadata_name :: "string option"
  event_message :: "string option"
  event_reason :: "string option"
  involved_object_name :: "string option"

text \<open>The reduced event of the bundle: the dictionary with the keys
  \<^verbatim>\<open>"Name"\<close>, \<^verbatim>\<open>"Message"\<close>, \<^verbatim>\<open>"Reason"\<close> built at lines 58 to 62.\<close>

record event_record =
  Name :: "string option"
  Message :: "string option"
  Reason :: "string option"

text \<open>The dictionary \<^verbatim>\<open>info\<close> that \<^verbatim>\<open>get_pod_info\<close> builds: the key \<^verbatim>\<open>"PodInfo"\<close> is set
  at line 53, the keys \<^verbatim>\<open>"Events"\<close> and \<^verbatim>\<open>"Logs"\<close> only under their flags; a key that is
  not in the dictionary is \<open>None\<close> here, which is also what \<^verbatim>\<open>info.get\<close> returns for it.\<close>

record info =
  PodInfo :: pydict
  Events :: "event_record list option"
  Logs :: "string option"

subsection \<open>The two services and the calls made to them\<close>

text \<open>The cluster behind \<^verbatim>\<open>client.CoreV1Api()\<close>, as the answers it gives: a list call
  answers with the names of its items, \<^verbatim>\<open>read_namespaced_pod\<close> with the pod (here already
  in its \<^verbatim>\<open>to_dict()\<close> form), and any call can fail with an \<^verbatim>\<open>ApiException\<close>.
  Argument order is the client's: name first, namespace second.\<close>

record cluster =
  list_namespace :: "error + string list"
  list_namespaced_pod :: "string \<Rightarrow> error + string list"
  read_namespaced_pod :: "string \<Rightarrow> string \<Rightarrow> error + pydict"
  list_namespaced_event :: "string \<Rightarrow> error + event list"
  read_namespaced_pod_log :: "string \<Rightarrow> string \<Rightarrow> error + string"

text \<open>Every call that leaves the process is recorded, in order, so that the number and
  the kind of calls a function makes can be stated.\<close>

datatype call =
    List_namespace
  | List_namespaced_pod string
  | Read_namespaced_pod string string
  | List_namespaced_event string
  | Read_namespaced_pod_log string string
  | Chat_completions_create string string

section \<open>Listing\<close>

definition list_namespaces ::
  "cluster \<Rightarrow> call list \<Rightarrow> (error + string list) \<times> call list" where
  "list_namespaces v1 tr = (list_namespace v1, tr @ [List_namespace])"

definition list_pods ::
  "cluster \<Rightarrow> string \<Rightarrow> call list \<Rightarrow> (error + string list) \<times> call list" where
  "list_pods v1 namespace tr =
     (list_namespaced_pod v1 namespace, tr @ [List_namespaced_pod namespace])"

section \<open>The diagnostic bundle: \<^verbatim>\<open>get_pod_info\<close>\<close>

text \<open>\<^verbatim>\<open>d[k1][k2] = v\<close> on a dictionary \<open>d\<close>, the statement of line 50: the lookup of
  \<open>k1\<close> raises \<^verbatim>\<open>KeyError\<close> on a missing key, and the item assignment raises
  \<^verbatim>\<open>TypeError\<close> when what is found there is not a dictionary (\<^verbatim>\<open>None\<close>, for one). The
  nested dictionary is changed in place, so the outer one holds the changed dictionary
  at the same key.\<close>

definition setitem_nested :: "pydict \<Rightarrow> string \<Rightarrow> string \<Rightarrow> pyval \<Rightarrow> error + pydict" where
  "setitem_nested d k1 k2 v =
     (case map_of d k1 of
        None \<Rightarrow> Inl (KeyError k1)
      | Some (VDict inner) \<Rightarrow> Inr (dict_set d k1 (VDict (dict_set inner k2 v)))
      | Some _ \<Rightarrow> Inl TypeError)"

text \<open>Lines 57 to 65, the list comprehension: the events are visited in the order of
  \<^verbatim>\<open>events.items\<close>, and one whose involved object has the pod's name adds its reduced
  form to the result.\<close>

fun pod_events :: "string \<Rightarrow> event list \<Rightarrow> event_record list" where
  "pod_events pod [] = []"
| "pod_events pod (event # items) =
     (if involved_object_name event = Some pod
      then \<lparr>Name = metadata_name event, Message = event_message event,
            Reason = event_reason event\<rparr> # pod_events pod items
      else pod_events pod items)"

text \<open>Lines 55 to 65: the events, when asked for.\<close>

definition add_events ::
  "cluster \<Rightarrow> string \<Rightarrow> string \<Rightarrow> bool \<Rightarrow> info \<Rightarrow> call list \<Rightarrow> (error + info) \<times> call list" where
  "add_events v1 namespace pod include_events info tr =
     (if include_events then
        (case list_namespaced_event v1 namespace of
           Inl e \<Rightarrow> (Inl e, tr @ [List_namespaced_event namespace])
         | Inr items \<Rightarrow>
             (Inr (info\<lparr>Events := Some (pod_events pod items)\<rparr>),
              tr @ [List_namespaced_event namespace]))
      else (Inr info, tr))"

text \<open>Lines 66 to 68: the logs, when asked for.\<close>

definition add_logs ::
  "cluster \<Rightarrow> string \<Rightarrow> string \<Rightarrow> bool \<Rightarrow> info \<Rightarrow> call list \<Rightarrow> (error + info) \<times> call list" where
  "add_logs v1 namespace pod include_logs info tr =
     (if include_logs then
        (case read_namespaced_pod_log v1 pod namespace of
           Inl e \<Rightarrow> (Inl e, tr @ [Read_namespaced_pod_log pod namespace])
         | Inr logs \<Rightarrow>
             (Inr (info\<lparr>Logs := Some logs\<rparr>),
              tr @ [Read_namespaced_pod_log pod namespace]))
      else (Inr info, tr))"

text \<open>\<^verbatim>\<open>get_pod_info\<close>, lines 47 to 70: the read of the pod, line 50
  (\<^verbatim>\<open>pod_info_map["metadata"]["managed_fields"] = None\<close>), the dictionary of line 52, the
  events and the logs. An exception of any step ends the function there, with the calls
  made so far.\<close>

definition get_pod_info ::
  "cluster \<Rightarrow> string \<Rightarrow> string \<Rightarrow> bool \<Rightarrow> bool \<Rightarrow> call list \<Rightarrow> (error + info) \<times> call list" where
  "get_pod_info v1 namespace pod include_events include_logs tr =
     (case read_namespaced_pod v1 pod namespace of
        Inl e \<Rightarrow> (Inl e, tr @ [Read_namespaced_pod pod namespace])
      | Inr pod_info_map \<Rightarrow>
          (case setitem_nested pod_info_map ''metadata'' ''managed_fields'' VNone of
             Inl e \<Rightarrow> (Inl e, tr @ [Read_namespaced_pod pod namespace])
           | Inr pod_info_map' \<Rightarrow>
               (case add_events v1 namespace pod include_events
                       \<lparr>PodInfo = pod_info_map', Events = None, Logs = None\<rparr>
                       (tr @ [Read_namespaced_pod pod namespace]) of
                  (Inl e, tr') \<Rightarrow> (Inl e, tr')
                | (Inr info, tr') \<Rightarrow> add_logs v1 namespace pod include_logs info tr')))"

section \<open>The prompt: \<^verbatim>\<open>create_prompt\<close>\<close>

text \<open>How an f-string renders a value that may be \<^verbatim>\<open>None\<close>, and a Boolean.\<close>

definition py_str :: "string option \<Rightarrow> string" where
  "py_str v = (case v of None \<Rightarrow> ''None'' | Some s \<Rightarrow> s)"

definition py_bool :: "bool \<Rightarrow> string" where
  "py_bool b = (if b then ''True'' else ''False'')"

text \<open>The truth value of \<^verbatim>\<open>info.get(key)\<close>: false for a missing key (\<^verbatim>\<open>None\<close>), for an
  empty list and for an empty string.\<close>

definition py_truthy :: "'a list option \<Rightarrow> bool" where
  "py_truthy v = (case v of None \<Rightarrow> False | Some xs \<Rightarrow> xs \<noteq> [])"

text \<open>Line 89, the line of one event.\<close>

definition event_line :: "event_record \<Rightarrow> string" where
  "event_line event =
     ''Event: '' @ py_str (Name event) @ '', Reason: '' @ py_str (Reason event) @
     '', Message: '' @ py_str (Message event) @ ''\<newline>''"

text \<open>Lines 88 and 89, the loop over the events, on the prompt built so far.\<close>

fun for_events :: "event_record list \<Rightarrow> string \<Rightarrow> string" where
  "for_events [] prompt = prompt"
| "for_events (event # events) prompt = for_events events (prompt @ event_line event)"

text \<open>Lines 86 to 89 and lines 90 to 92: what each of the two guarded blocks does to the
  prompt built so far. The guard is the truth value of \<^verbatim>\<open>info.get(key)\<close>; the body looks
  the key up once more (\<^verbatim>\<open>info[key]\<close>), which finds it, the guard having held.\<close>

definition events_section :: "info \<Rightarrow> string \<Rightarrow> string" where
  "events_section info prompt =
     (if py_truthy (Events info)
      then (case Events info of
              None \<Rightarrow> prompt
            | Some events \<Rightarrow>
                for_events events
                  (prompt @ ''Here are the last few events for the pod: \<newline>''))
      else prompt)"

definition logs_section :: "info \<Rightarrow> string \<Rightarrow> string" where
  "logs_section info prompt =
     (if py_truthy (Logs info)
      then (case Logs info of
              None \<Rightarrow> prompt
            | Some logs \<Rightarrow> prompt @ ''Here are the last few logs for the pod: \<newline>'' @ logs)
      else prompt)"

text \<open>\<^verbatim>\<open>create_prompt\<close>, lines 84 to 93. \<^verbatim>\<open>yaml.dump\<close> is the library's: it is the
  parameter \<open>dump\<close>.\<close>

definition create_prompt :: "(pydict \<Rightarrow> string) \<Rightarrow> string \<Rightarrow> info \<Rightarrow> string" where
  "create_prompt dump msg info =
     (let prompt = msg @ ''\<newline>'';
          prompt = prompt @ ''Pod Info: \<newline> '' @ dump (PodInfo info) @ '' \<newline>'';
          prompt = events_section info prompt;
          prompt = logs_section info prompt
      in prompt)"

section \<open>The completion call: \<^verbatim>\<open>call_llm\<close>\<close>

text \<open>The completion service behind \<^verbatim>\<open>openAiClient\<close>: the content of the first choice
  for a system message and a user message, or a failure of the call.\<close>

type_synonym completion_service = "string \<Rightarrow> string \<Rightarrow> error + string"

definition system_content :: string where
  "system_content =
     ''You are a kubernetes expert, and will help the user with request below based on the context and info provided''"

text \<open>\<^verbatim>\<open>call_llm\<close>, lines 110 to 120.\<close>

definition call_llm ::
  "cluster \<Rightarrow> completion_service \<Rightarrow> (pydict \<Rightarrow> string) \<Rightarrow> string \<Rightarrow> string \<Rightarrow> string \<Rightarrow>
     bool \<Rightarrow> bool \<Rightarrow> call list \<Rightarrow> (error + string) \<times> call list" where
  "call_llm v1 openAiClient dump msg namespace pod include_events include_logs tr =
     (case get_pod_info v1 namespace pod include_events include_logs tr of
        (Inl e, tr') \<Rightarrow> (Inl e, tr')
      | (Inr info, tr') \<Rightarrow>
          (let prompt = create_prompt dump msg info
           in (openAiClient system_content prompt,
               tr' @ [Chat_completions_create system_content prompt])))"

section \<open>The session: the pickers and \<^verbatim>\<open>respond\<close>\<close>

text \<open>What an event handler returns for a dropdown, \<^verbatim>\<open>gr.Dropdown(choices=pods)\<close> at
  line 133: a component built from some of the constructor's arguments. Gradio applies
  it to the output component as an update: an argument that was given replaces the
  component's property, one that was not given (\<open>None\<close> here) leaves the property as
  it is.\<close>

record dropdown_update =
  upd_choices :: "string list option"
  upd_value :: "string option option"

text \<open>\<^verbatim>\<open>namespace_change\<close>, lines 132 and 133.\<close>

definition namespace_change ::
  "cluster \<Rightarrow> string \<Rightarrow> call list \<Rightarrow> (error + dropdown_update) \<times> call list" where
  "namespace_change v1 val tr =
     (case list_pods v1 val tr of
        (Inl e, tr') \<Rightarrow> (Inl e, tr')
      | (Inr pods, tr') \<Rightarrow> (Inr \<lparr>upd_choices = Some pods, upd_value = None\<rparr>, tr'))"

text \<open>The selection held by the four input components of lines 142 to 163: a dropdown's
  value is \<^verbatim>\<open>None\<close> until something is picked; the pod dropdown starts with no choices.\<close>

record selection_state =
  namespace_value :: "string option"
  pod_choices :: "string list"
  pod_value :: "string option"
  include_events_value :: bool
  include_logs_value :: bool

definition apply_to_pod :: "dropdown_update \<Rightarrow> selection_state \<Rightarrow> selection_state" where
  "apply_to_pod upd st =
     (let st = (case upd_choices upd of None \<Rightarrow> st | Some cs \<Rightarrow> st\<lparr>pod_choices := cs\<rparr>);
          st = (case upd_value upd of None \<Rightarrow> st | Some v \<Rightarrow> st\<lparr>pod_value := v\<rparr>)
      in st)"

text \<open>Line 164, \<^verbatim>\<open>namespace.change(namespace_change, inputs=namespace, outputs=pod)\<close>:
  picking a namespace sets the namespace dropdown's value, runs the handler on that
  value and applies what it returns to the pod dropdown. When the handler raises,
  nothing is applied.\<close>

definition select_namespace ::
  "cluster \<Rightarrow> string \<Rightarrow> selection_state \<Rightarrow> call list \<Rightarrow>
     (error + unit) \<times> selection_state \<times> call list" where
  "select_namespace v1 val st tr =
     (let st' = st\<lparr>namespace_value := Some val\<rparr>
      in case namespace_change v1 val tr of
           (Inl e, tr') \<Rightarrow> (Inl e, st', tr')
         | (Inr upd, tr') \<Rightarrow> (Inr (), apply_to_pod upd st', tr'))"

definition validation_message :: string where
  "validation_message = ''Please select a namespace and pod.''"

text \<open>\<^verbatim>\<open>respond\<close>, lines 168 to 175. The chat history is a list of pairs (displayed
  request, response); \<^verbatim>\<open>append\<close> adds at the end. The result is the pair the function
  returns: the new content of the message box and the history. \<^verbatim>\<open>not x\<close> holds of
  \<^verbatim>\<open>None\<close> and of the empty string, so past the guard of line 169 the namespace and the
  pod are strings (\<open>the\<close> reads them), and the message is not empty.\<close>

definition respond ::
  "cluster \<Rightarrow> completion_service \<Rightarrow> (pydict \<Rightarrow> string) \<Rightarrow> string \<Rightarrow> (string \<times> string) list \<Rightarrow>
     string option \<Rightarrow> string option \<Rightarrow> bool \<Rightarrow> bool \<Rightarrow> call list \<Rightarrow>
     (error + string \<times> (string \<times> string) list) \<times> call list" where
  "respond v1 openAiClient dump message chat_history namespace pod include_events include_logs tr =
     (if \<not> py_truthy namespace \<or> \<not> py_truthy pod \<or> message = []
      then (Inr ('''', chat_history @
                  [(if message = [] then ''Error'' else message, validation_message)]), tr)
      else
        (case call_llm v1 openAiClient dump message (the namespace) (the pod)
                include_events include_logs tr of
           (Inl e, tr') \<Rightarrow> (Inl e, tr')
         | (Inr bot_message, tr') \<Rightarrow>
             (let new_message =
                ''Namespace '' @ py_str namespace @ '', Pod: '' @ py_str pod @
                '', Include Events: '' @ py_bool include_events @
                '', Include Logs: '' @ py_bool include_logs @ '' \<newline> '' @ message
              in (Inr ('''', chat_history @ [(new_message, bot_message)]), tr'))))"

section \<open>Notions the properties are stated with\<close>

text \<open>The cluster whose pods carry the value \<open>b\<close> as their managed fields and are
  otherwise as in \<open>v1\<close> (a pod without a metadata dictionary is left as it is).\<close>

definition with_managed_fields :: "pyval \<Rightarrow> cluster \<Rightarrow> cluster" where
  "with_managed_fields b v1 =
     v1\<lparr>read_namespaced_pod := (\<lambda>pod namespace.
           case read_namespaced_pod v1 pod namespace of
             Inl e \<Rightarrow> Inl e
           | Inr d \<Rightarrow>
               (case setitem_nested d ''metadata'' ''managed_fields'' b of
                  Inl _ \<Rightarrow> Inr d
                | Inr d' \<Rightarrow> Inr d'))\<rparr>"

text \<open>The calls of a build that runs to its end: the pod, then the events when asked
  for, then the logs when asked for.\<close>

definition calls_of :: "string \<Rightarrow> string \<Rightarrow> bool \<Rightarrow> bool \<Rightarrow> call list" where
  "calls_of namespace pod include_events include_logs =
     Read_namespaced_pod pod namespace #
     (if include_events then [List_namespaced_event namespace] else []) @
     (if include_logs then [Read_namespaced_pod_log pod namespace] else [])"

subsection \<open>A small cluster to run the program on\<close>

text \<open>The namespace \<^verbatim>\<open>default\<close> holds the pods \<^verbatim>\<open>web-1\<close> and \<^verbatim>\<open>db-0\<close>; a read of any other
  pod answers 404. Three events: two of \<^verbatim>\<open>web-1\<close>, with one of a pod that is gone between
  them, and none of \<^verbatim>\<open>db-0\<close>.\<close>

definition web_pod :: pydict where
  "web_pod =
     [(''metadata'',
         VDict [(''managed_fields'', VList [VDict [(''manager'', VStr ''kubectl'')]]),
                (''name'', VStr ''web-1'')]),
      (''status'', VDict [(''phase'', VStr ''Running'')])]"

definition db_pod :: pydict where
  "db_pod = [(''metadata'', VDict [(''name'', VStr ''db-0'')])]"

definition scheduled_event :: event where
  "scheduled_event =
     \<lparr>metadata_name = Some ''ev1'', event_message = Some ''assigned to node1'',
      event_reason = Some ''Scheduled'', involved_object_name = Some ''web-1''\<rparr>"

definition backoff_event :: event where
  "backoff_event =
     \<lparr>metadata_name = Some ''ev0'', event_message = Some ''restarting failed container'',
      event_reason = Some ''BackOff'', involved_object_name = Some ''cache-0''\<rparr>"

definition pulled_event :: event where
  "pulled_event =
     \<lparr>metadata_name = Some ''ev2'', event_message = Some ''image pulled'',
      event_reason = Some ''Pulled'', involved_object_name = Some ''web-1''\<rparr>"

definition demo_cluster :: cluster where
  "demo_cluster =
     \<lparr>list_namespace = Inr [''default'', ''kube-system''],
      list_namespaced_pod =
        (\<lambda>namespace. if namespace = ''default'' then Inr [''web-1'', ''db-0''] else Inr []),
      read_namespaced_pod =
        (\<lambda>pod namespace.
           if namespace = ''default'' \<and> pod = ''web-1'' then Inr web_pod
           else if namespace = ''default'' \<and> pod = ''db-0'' then Inr db_pod
           else Inl (ApiException 404)),
      list_namespaced_event =
        (\<lambda>namespace.
           if namespace = ''default'' then Inr [scheduled_event, backoff_event, pulled_event]
           else Inr []),
      read_namespaced_pod_log =
        (\<lambda>pod namespace.
           if namespace = ''default'' \<and> pod = ''web-1'' then Inr ''listening on :8080''
           else if namespace = ''default'' \<and> pod = ''db-0'' then Inr []
           else Inl (ApiException 404))\<rparr>"

text \<open>The same cluster for an account that may not list events: that call answers 403.\<close>

definition forbidden_events_cluster :: cluster where
  "forbidden_events_cluster =
     demo_cluster\<lparr>list_namespaced_event := (\<lambda>namespace. Inl (ApiException 403))\<rparr>"

text \<open>A stand-in for \<^verbatim>\<open>yaml.dump\<close> (the empty dictionary as the library prints it, else
  the top-level keys), and a completion service with one answer.\<close>

definition demo_dump :: "pydict \<Rightarrow> string" where
  "demo_dump d =
     (if d = [] then ''{}\<newline>'' else concat (map (\<lambda>kv. fst kv @ '': ...\<newline>'') d))"

definition demo_llm :: completion_service where
  "demo_llm system_message user_message = Inr ''The pod is running.''"

section \<open>Facts about the parts\<close>

lemma map_of_dict_set: "map_of (dict_set d k v) k' = (if k' = k then Some v else map_of d k')"
  by (induction d) auto

lemma dict_set_twice: "dict_set (dict_set d k v) k w = dict_set d k w"
  by (induction d) auto

lemma setitem_nested_twice:
  "setitem_nested d ''metadata'' ''managed_fields'' b = Inr d' \<Longrightarrow>
     setitem_nested d' ''metadata'' ''managed_fields'' w =
     setitem_nested d ''metadata'' ''managed_fields'' w"
  by (auto simp: setitem_nested_def map_of_dict_set dict_set_twice
      split: option.splits pyval.splits)

lemma setitem_nested_value:
  "setitem_nested d ''metadata'' ''managed_fields'' v = Inr d' \<Longrightarrow>
     \<exists>metadata. map_of d' ''metadata'' = Some (VDict metadata) \<and>
       map_of metadata ''managed_fields'' = Some v"
  by (auto simp: setitem_nested_def map_of_dict_set split: option.splits pyval.splits)

lemma pod_events_filter:
  "pod_events pod items =
     map (\<lambda>event. \<lparr>Name = metadata_name event, Message = event_message event,
                    Reason = event_reason event\<rparr>)
       (filter (\<lambda>event. involved_object_name event = Some pod) items)"
  by (induction items) simp_all

lemma get_pod_info_returns:
  assumes "get_pod_info v1 namespace pod include_events include_logs tr = (Inr info, tr')"
  shows "\<exists>d d'. read_namespaced_pod v1 pod namespace = Inr d \<and>
           setitem_nested d ''metadata'' ''managed_fields'' VNone = Inr d' \<and> PodInfo info = d'"
    and "include_events \<Longrightarrow> \<exists>items. list_namespaced_event v1 namespace = Inr items \<and>
           Events info = Some (pod_events pod items)"
    and "\<not> include_events \<Longrightarrow> Events info = None"
    and "include_logs \<Longrightarrow> \<exists>logs. read_namespaced_pod_log v1 pod namespace = Inr logs \<and>
           Logs info = Some logs"
    and "\<not> include_logs \<Longrightarrow> Logs info = None"
    and "tr' = tr @ calls_of namespace pod include_events include_logs"
  using assms
  by (auto simp: get_pod_info_def add_events_def add_logs_def calls_of_def
      split: sum.splits if_splits prod.splits)

lemma get_pod_info_trace:
  "\<exists>rest. snd (get_pod_info v1 namespace pod include_events include_logs tr) =
      tr @ Read_namespaced_pod pod namespace # rest \<and>
      prefix (Read_namespaced_pod pod namespace # rest)
        (calls_of namespace pod include_events include_logs)"
  by (auto simp: get_pod_info_def add_events_def add_logs_def calls_of_def
      split: sum.splits if_splits prod.splits)

lemma add_events_with_managed_fields:
  "add_events (with_managed_fields b v1) = add_events v1"
  by (intro ext) (simp add: add_events_def with_managed_fields_def)

lemma add_logs_with_managed_fields:
  "add_logs (with_managed_fields b v1) = add_logs v1"
  by (intro ext) (simp add: add_logs_def with_managed_fields_def)

lemma read_with_managed_fields:
  "(case read_namespaced_pod (with_managed_fields b v1) pod namespace of
      Inl e \<Rightarrow> Inl e | Inr d \<Rightarrow> setitem_nested d ''metadata'' ''managed_fields'' w) =
   (case read_namespaced_pod v1 pod namespace of
      Inl e \<Rightarrow> Inl e | Inr d \<Rightarrow> setitem_nested d ''metadata'' ''managed_fields'' w)"
  by (auto simp: with_managed_fields_def setitem_nested_twice
      split: sum.splits)

lemma get_pod_info_with_managed_fields:
  "get_pod_info (with_managed_fields b v1) namespace pod include_events include_logs tr =
   get_pod_info v1 namespace pod include_events include_logs tr"
  using read_with_managed_fields
    [where b = b and ?v1.0 = v1 and pod = pod and namespace = namespace and w = VNone]
  by (auto simp: get_pod_info_def add_events_with_managed_fields
      add_logs_with_managed_fields split: sum.splits prod.splits)

lemma for_events_append: "for_events events prompt = prompt @ concat (map event_line events)"
  by (induction events arbitrary: prompt) simp_all

lemma create_prompt_closed:
  "create_prompt dump msg info =
     msg @ ''\<newline>'' @ ''Pod Info: \<newline> '' @ dump (PodInfo info) @ '' \<newline>'' @
     (case Events info of
        None \<Rightarrow> []
      | Some events \<Rightarrow>
          if events = [] then []
          else ''Here are the last few events for the pod: \<newline>'' @
               concat (map event_line events)) @
     (case Logs info of
        None \<Rightarrow> []
      | Some logs \<Rightarrow>
          if logs = [] then []
          else ''Here are the last few logs for the pod: \<newline>'' @ logs)"
  by (simp add: create_prompt_def events_section_def logs_section_def py_truthy_def
      for_events_append Let_def split: option.splits)

lemma call_llm_trace:
  "get_pod_info v1 namespace pod include_events include_logs tr = (Inr info, tr') \<Longrightarrow>
     call_llm v1 openAiClient dump msg namespace pod include_events include_logs tr =
       (openAiClient system_content (create_prompt dump msg info),
        tr' @ [Chat_completions_create system_content (create_prompt dump msg info)])"
  by (simp add: call_llm_def Let_def)

lemmas demo_defs = demo_cluster_def web_pod_def db_pod_def scheduled_event_def
  backoff_event_def pulled_event_def get_pod_info_def add_events_def add_logs_def
  setitem_nested_def

section \<open>Properties of the bundle\<close>

text \<open>
  Claim C1. For every namespace, pod and pair of options, the pod detail of the bundle
  that \<^verbatim>\<open>get_pod_info\<close> returns does not include the managed fields: the entry
  \<^verbatim>\<open>managed_fields\<close> of its metadata is \<^verbatim>\<open>None\<close>, which is how the client's dictionaries
  hold a field that is not set (the key itself is one of the metadata's fixed keys and
  stays). What the cluster had there reaches nothing that is made from the returned
  detail: the same call on the cluster whose pods carry any other value \<open>b\<close> as their
  managed fields returns the same bundle.
\<close>

theorem get_pod_info_strips_managed_fields:
  assumes "get_pod_info v1 namespace pod include_events include_logs tr = (Inr info, tr')"
  shows "(\<exists>metadata. map_of (PodInfo info) ''metadata'' = Some (VDict metadata) \<and>
            map_of metadata ''managed_fields'' = Some VNone) \<and>
         get_pod_info (with_managed_fields b v1) namespace pod include_events include_logs tr =
           (Inr info, tr')"
proof -
  from get_pod_info_returns(1) [OF assms] obtain d where
    "setitem_nested d ''metadata'' ''managed_fields'' VNone = Inr (PodInfo info)" by auto
  from setitem_nested_value [OF this] assms show ?thesis
    by (simp add: get_pod_info_with_managed_fields)
qed

text \<open>On the small cluster: the managed fields that \<^verbatim>\<open>kubectl\<close> wrote are gone from the
  detail of \<^verbatim>\<open>web-1\<close>.\<close>

theorem get_pod_info_strips_managed_fields_witness:
  "get_pod_info demo_cluster ''default'' ''web-1'' False False [] =
     (Inr \<lparr>PodInfo =
              [(''metadata'', VDict [(''managed_fields'', VNone), (''name'', VStr ''web-1'')]),
               (''status'', VDict [(''phase'', VStr ''Running'')])],
            Events = None, Logs = None\<rparr>,
      [Read_namespaced_pod ''web-1'' ''default'']) \<and>
   get_pod_info (with_managed_fields (VStr ''other'') demo_cluster) ''default'' ''web-1''
       False False [] =
     get_pod_info demo_cluster ''default'' ''web-1'' False False []"
proof -
  have run: "get_pod_info demo_cluster ''default'' ''web-1'' False False [] =
     (Inr \<lparr>PodInfo =
              [(''metadata'', VDict [(''managed_fields'', VNone), (''name'', VStr ''web-1'')]),
               (''status'', VDict [(''phase'', VStr ''Running'')])],
            Events = None, Logs = None\<rparr>,
      [Read_namespaced_pod ''web-1'' ''default''])"
    by (simp add: demo_defs)
  from get_pod_info_strips_managed_fields [OF run, of "VStr ''other''"] run
  show ?thesis by simp
qed

text \<open>
  Claim C6. When the events are asked for, the events of the bundle that \<^verbatim>\<open>get_pod_info\<close>
  returns are exactly the events of the namespace whose involved object has the name of
  the requested pod, in the order in which the cluster returned them (none moved, none
  dropped), each reduced to its name, message and reason.
\<close>

theorem get_pod_info_events:
  assumes "get_pod_info v1 namespace pod True include_logs tr = (Inr info, tr')"
  shows "\<exists>items. list_namespaced_event v1 namespace = Inr items \<and>
           Events info =
             Some (map (\<lambda>event. \<lparr>Name = metadata_name event, Message = event_message event,
                                  Reason = event_reason event\<rparr>)
                     (filter (\<lambda>event. involved_object_name event = Some pod) items))"
  using get_pod_info_returns(2) [OF assms] by (simp add: pod_events_filter)

text \<open>On the small cluster: of the three events of \<^verbatim>\<open>default\<close>, the two of \<^verbatim>\<open>web-1\<close>, in
  their order.\<close>

theorem get_pod_info_events_witness:
  "list_namespaced_event demo_cluster ''default'' =
     Inr [scheduled_event, backoff_event, pulled_event] \<and>
   Events (projr (fst (get_pod_info demo_cluster ''default'' ''web-1'' True False []))) =
     Some [\<lparr>Name = Some ''ev1'', Message = Some ''assigned to node1'', Reason = Some ''Scheduled''\<rparr>,
           \<lparr>Name = Some ''ev2'', Message = Some ''image pulled'', Reason = Some ''Pulled''\<rparr>]"
proof -
  obtain info tr' where
    run: "get_pod_info demo_cluster ''default'' ''web-1'' True False [] = (Inr info, tr')"
    by (simp add: demo_defs)
  have items: "list_namespaced_event demo_cluster ''default'' =
      Inr [scheduled_event, backoff_event, pulled_event]"
    by (simp add: demo_cluster_def)
  from get_pod_info_events [OF run] items
  have "Events info =
     Some [\<lparr>Name = Some ''ev1'', Message = Some ''assigned to node1'', Reason = Some ''Scheduled''\<rparr>,
           \<lparr>Name = Some ''ev2'', Message = Some ''image pulled'', Reason = Some ''Pulled''\<rparr>]"
    by (simp add: scheduled_event_def backoff_event_def pulled_event_def)
  with run items show ?thesis by simp
qed

text \<open>
  Claim C8. For every input, the bundle that \<^verbatim>\<open>get_pod_info\<close> returns holds the pod
  detail (the pod that was read, after line 50), holds an events entry iff the events
  were asked for, and holds a logs entry iff the logs were asked for. The events entry
  is there whenever asked for, also when no event is the pod's.
\<close>

theorem get_pod_info_entries:
  assumes "get_pod_info v1 namespace pod include_events include_logs tr = (Inr info, tr')"
  shows "(\<exists>d. read_namespaced_pod v1 pod namespace = Inr d \<and>
              setitem_nested d ''metadata'' ''managed_fields'' VNone = Inr (PodInfo info)) \<and>
         (Events info \<noteq> None \<longleftrightarrow> include_events) \<and>
         (Logs info \<noteq> None \<longleftrightarrow> include_logs)"
  using get_pod_info_returns(1-5) [OF assms]
  by (cases include_events; cases include_logs) auto

text \<open>On the small cluster: \<^verbatim>\<open>db-0\<close> has no events; asked for, the entry is the empty
  list. And \<^verbatim>\<open>web-1\<close> with the logs asked for and the events not.\<close>

theorem get_pod_info_entries_witness:
  "get_pod_info demo_cluster ''default'' ''db-0'' True False [] =
     (Inr \<lparr>PodInfo = [(''metadata'', VDict [(''name'', VStr ''db-0''), (''managed_fields'', VNone)])],
           Events = Some [], Logs = None\<rparr>,
      [Read_namespaced_pod ''db-0'' ''default'', List_namespaced_event ''default'']) \<and>
   Events (projr (fst (get_pod_info demo_cluster ''default'' ''db-0'' True False []))) \<noteq> None \<and>
   Logs (projr (fst (get_pod_info demo_cluster ''default'' ''db-0'' True False []))) = None \<and>
   Events (projr (fst (get_pod_info demo_cluster ''default'' ''web-1'' False True []))) = None \<and>
   Logs (projr (fst (get_pod_info demo_cluster ''default'' ''web-1'' False True []))) \<noteq> None"
proof -
  have run: "get_pod_info demo_cluster ''default'' ''db-0'' True False [] =
     (Inr \<lparr>PodInfo = [(''metadata'', VDict [(''name'', VStr ''db-0''), (''managed_fields'', VNone)])],
           Events = Some [], Logs = None\<rparr>,
      [Read_namespaced_pod ''db-0'' ''default'', List_namespaced_event ''default''])"
    by (simp add: demo_defs)
  obtain info tr' where with_logs:
    "get_pod_info demo_cluster ''default'' ''web-1'' False True [] = (Inr info, tr')"
    by (simp add: demo_defs)
  from get_pod_info_entries [OF with_logs] with_logs
  have logs: "Events (projr (fst (get_pod_info demo_cluster ''default'' ''web-1'' False True []))) = None \<and>
   Logs (projr (fst (get_pod_info demo_cluster ''default'' ''web-1'' False True []))) \<noteq> None"
    by simp
  from get_pod_info_entries [OF run] run logs show ?thesis by simp
qed

text \<open>A pod that is not there, with the events and the logs asked for: the read of the
  pod raises, and neither the events nor the logs are fetched.\<close>

theorem get_pod_info_failed_read_counterexample:
  "get_pod_info demo_cluster ''default'' ''gone'' True True [] =
     (Inl (ApiException 404), [Read_namespaced_pod ''gone'' ''default'']) \<and>
   List_namespaced_event ''default'' \<notin>
     set (snd (get_pod_info demo_cluster ''default'' ''gone'' True True [])) \<and>
   Read_namespaced_pod_log ''gone'' ''default'' \<notin>
     set (snd (get_pod_info demo_cluster ''default'' ''gone'' True True []))"
  by (simp add: demo_defs)

text \<open>
  Claim C9, as the code has it. \<^verbatim>\<open>get_pod_info\<close> only reads. A build that returns a
  bundle has made exactly one call for the pod detail, then exactly one events call iff
  the events were asked for, then exactly one logs call iff the logs were asked for, and
  no other call. A build that a failure ends has made the pod detail call and the calls
  asked for up to the one that failed, and no call after it: nothing but the pod read
  when that read or line 50 fails, the pod read and the events call when the events call
  fails, and these and the logs call when the logs call fails. A build returns exactly
  when the pod read, line 50 and each call asked for succeed. No call is made twice,
  and none that was not asked for.
\<close>

theorem get_pod_info_calls:
  "(\<forall>info tr'.
      get_pod_info v1 namespace pod include_events include_logs tr = (Inr info, tr') \<longrightarrow>
      tr' = tr @ [Read_namespaced_pod pod namespace] @
                 (if include_events then [List_namespaced_event namespace] else []) @
                 (if include_logs then [Read_namespaced_pod_log pod namespace] else [])) \<and>
   (\<forall>e. read_namespaced_pod v1 pod namespace = Inl e \<longrightarrow>
      get_pod_info v1 namespace pod include_events include_logs tr =
        (Inl e, tr @ [Read_namespaced_pod pod namespace])) \<and>
   (\<forall>d e. read_namespaced_pod v1 pod namespace = Inr d \<and>
      setitem_nested d ''metadata'' ''managed_fields'' VNone = Inl e \<longrightarrow>
      get_pod_info v1 namespace pod include_events include_logs tr =
        (Inl e, tr @ [Read_namespaced_pod pod namespace])) \<and>
   (\<forall>d d' e. read_namespaced_pod v1 pod namespace = Inr d \<and>
      setitem_nested d ''metadata'' ''managed_fields'' VNone = Inr d' \<and>
      include_events \<and> list_namespaced_event v1 namespace = Inl e \<longrightarrow>
      get_pod_info v1 namespace pod include_events include_logs tr =
        (Inl e, tr @ [Read_namespaced_pod pod namespace, List_namespaced_event namespace])) \<and>
   (\<forall>d d' e. read_namespaced_pod v1 pod namespace = Inr d \<and>
      setitem_nested d ''metadata'' ''managed_fields'' VNone = Inr d' \<and>
      (include_events \<longrightarrow> (\<exists>items. list_namespaced_event v1 namespace = Inr items)) \<and>
      include_logs \<and> read_namespaced_pod_log v1 pod namespace = Inl e \<longrightarrow>
      get_pod_info v1 namespace pod include_events include_logs tr =
        (Inl e, tr @ [Read_namespaced_pod pod namespace] @
                 (if include_events then [List_namespaced_event namespace] else []) @
                 [Read_namespaced_pod_log pod namespace])) \<and>
   ((\<exists>info tr'. get_pod_info v1 namespace pod include_events include_logs tr = (Inr info, tr'))
      \<longleftrightarrow>
    (\<exists>d d'. read_namespaced_pod v1 pod namespace = Inr d \<and>
       setitem_nested d ''metadata'' ''managed_fields'' VNone = Inr d') \<and>
    (include_events \<longrightarrow> (\<exists>items. list_namespaced_event v1 namespace = Inr items)) \<and>
    (include_logs \<longrightarrow> (\<exists>logs. read_namespaced_pod_log v1 pod namespace = Inr logs))) \<and>
   (\<exists>rest. snd (get_pod_info v1 namespace pod include_events include_logs tr) =
              tr @ [Read_namespaced_pod pod namespace] @ rest \<and>
            prefix rest
              ((if include_events then [List_namespaced_event namespace] else []) @
               (if include_logs then [Read_namespaced_pod_log pod namespace] else [])))"
proof (intro conjI)
  show "\<forall>info tr'.
      get_pod_info v1 namespace pod include_events include_logs tr = (Inr info, tr') \<longrightarrow>
      tr' = tr @ [Read_namespaced_pod pod namespace] @
                 (if include_events then [List_namespaced_event namespace] else []) @
                 (if include_logs then [Read_namespaced_pod_log pod namespace] else [])"
    using get_pod_info_returns(6) [of v1 namespace pod include_events include_logs tr]
    by (simp add: calls_of_def)
  show "\<forall>e. read_namespaced_pod v1 pod namespace = Inl e \<longrightarrow>
      get_pod_info v1 namespace pod include_events include_logs tr =
        (Inl e, tr @ [Read_namespaced_pod pod namespace])"
    by (simp add: get_pod_info_def)
  show "\<forall>d e. read_namespaced_pod v1 pod namespace = Inr d \<and>
      setitem_nested d ''metadata'' ''managed_fields'' VNone = Inl e \<longrightarrow>
      get_pod_info v1 namespace pod include_events include_logs tr =
        (Inl e, tr @ [Read_namespaced_pod pod namespace])"
    by (simp add: get_pod_info_def)
  show "\<forall>d d' e. read_namespaced_pod v1 pod namespace = Inr d \<and>
      setitem_nested d ''metadata'' ''managed_fields'' VNone = Inr d' \<and>
      include_events \<and> list_namespaced_event v1 namespace = Inl e \<longrightarrow>
      get_pod_info v1 namespace pod include_events include_logs tr =
        (Inl e, tr @ [Read_namespaced_pod pod namespace, List_namespaced_event namespace])"
    by (simp add: get_pod_info_def add_events_def)
  show "\<forall>d d' e. read_namespaced_pod v1 pod namespace = Inr d \<and>
      setitem_nested d ''metadata'' ''managed_fields'' VNone = Inr d' \<and>
      (include_events \<longrightarrow> (\<exists>items. list_namespaced_event v1 namespace = Inr items)) \<and>
      include_logs \<and> read_namespaced_pod_log v1 pod namespace = Inl e \<longrightarrow>
      get_pod_info v1 namespace pod include_events include_logs tr =
        (Inl e, tr @ [Read_namespaced_pod pod namespace] @
                 (if include_events then [List_namespaced_event namespace] else []) @
                 [Read_namespaced_pod_log pod namespace])"
    by (auto simp: get_pod_info_def add_events_def add_logs_def)
  show "(\<exists>info tr'. get_pod_info v1 namespace pod include_events include_logs tr = (Inr info, tr'))
      \<longleftrightarrow>
    (\<exists>d d'. read_namespaced_pod v1 pod namespace = Inr d \<and>
       setitem_nested d ''metadata'' ''managed_fields'' VNone = Inr d') \<and>
    (include_events \<longrightarrow> (\<exists>items. list_namespaced_event v1 namespace = Inr items)) \<and>
    (include_logs \<longrightarrow> (\<exists>logs. read_namespaced_pod_log v1 pod namespace = Inr logs))"
    by (auto simp: get_pod_info_def add_events_def add_logs_def
        split: sum.splits if_splits prod.splits)
  from get_pod_info_trace [of v1 namespace pod include_events include_logs tr]
  show "\<exists>rest. snd (get_pod_info v1 namespace pod include_events include_logs tr) =
              tr @ [Read_namespaced_pod pod namespace] @ rest \<and>
            prefix rest
              ((if include_events then [List_namespaced_event namespace] else []) @
               (if include_logs then [Read_namespaced_pod_log pod namespace] else []))"
    by (auto simp: calls_of_def)
qed

text \<open>On the small cluster: all three calls; the pod read alone; the events call refused,
  with the logs asked for and not read; a pod that is not there.\<close>

theorem get_pod_info_calls_witness:
  "snd (get_pod_info demo_cluster ''default'' ''web-1'' True True [List_namespaced_pod ''default'']) =
     [List_namespaced_pod ''default'', Read_namespaced_pod ''web-1'' ''default'',
      List_namespaced_event ''default'', Read_namespaced_pod_log ''web-1'' ''default''] \<and>
   snd (get_pod_info demo_cluster ''default'' ''web-1'' False False []) =
     [Read_namespaced_pod ''web-1'' ''default''] \<and>
   get_pod_info forbidden_events_cluster ''default'' ''web-1'' True True [] =
     (Inl (ApiException 403),
      [Read_namespaced_pod ''web-1'' ''default'', List_namespaced_event ''default'']) \<and>
   get_pod_info demo_cluster ''default'' ''gone'' True True [] =
     (Inl (ApiException 404), [Read_namespaced_pod ''gone'' ''default''])"
proof -
  obtain info tr' where run:
    "get_pod_info demo_cluster ''default'' ''web-1'' True True [List_namespaced_pod ''default''] =
       (Inr info, tr')"
    by (simp add: demo_defs)
  obtain info2 tr2 where run2:
    "get_pod_info demo_cluster ''default'' ''web-1'' False False [] = (Inr info2, tr2)"
    by (simp add: demo_defs)
  have pod_read: "read_namespaced_pod forbidden_events_cluster ''web-1'' ''default'' = Inr web_pod"
    by (simp add: forbidden_events_cluster_def demo_cluster_def)
  have line50: "setitem_nested web_pod ''metadata'' ''managed_fields'' VNone =
      Inr [(''metadata'', VDict [(''managed_fields'', VNone), (''name'', VStr ''web-1'')]),
           (''status'', VDict [(''phase'', VStr ''Running'')])]"
    by (simp add: setitem_nested_def web_pod_def)
  have forbidden: "list_namespaced_event forbidden_events_cluster ''default'' =
      Inl (ApiException 403)"
    by (simp add: forbidden_events_cluster_def)
  have gone: "read_namespaced_pod demo_cluster ''gone'' ''default'' = Inl (ApiException 404)"
    by (simp add: demo_cluster_def)
  from get_pod_info_calls [of demo_cluster "''default''" "''web-1''" True True
      "[List_namespaced_pod ''default'']"] run
  have a: "snd (get_pod_info demo_cluster ''default'' ''web-1'' True True
        [List_namespaced_pod ''default'']) =
     [List_namespaced_pod ''default'', Read_namespaced_pod ''web-1'' ''default'',
      List_namespaced_event ''default'', Read_namespaced_pod_log ''web-1'' ''default'']"
    by simp
  from get_pod_info_calls [of demo_cluster "''default''" "''web-1''" False False "[]"] run2
  have b: "snd (get_pod_info demo_cluster ''default'' ''web-1'' False False []) =
     [Read_namespaced_pod ''web-1'' ''default'']"
    by simp
  from get_pod_info_calls [of forbidden_events_cluster "''default''" "''web-1''" True True "[]"]
    pod_read line50 forbidden
  have c: "get_pod_info forbidden_events_cluster ''default'' ''web-1'' True True [] =
     (Inl (ApiException 403),
      [Read_namespaced_pod ''web-1'' ''default'', List_namespaced_event ''default''])"
    by simp
  from get_pod_info_calls [of demo_cluster "''default''" "''gone''" True True "[]"] gone
  have d: "get_pod_info demo_cluster ''default'' ''gone'' True True [] =
     (Inl (ApiException 404), [Read_namespaced_pod ''gone'' ''default''])"
    by simp
  from a b c d show ?thesis by simp
qed

section \<open>Properties of the prompt\<close>

text \<open>A bundle whose logs are present and empty: the guard of line 90 is the truth value
  of the text, the empty text is false, and the prompt ends after the pod information,
  with no logs section.\<close>

theorem create_prompt_empty_logs_counterexample:
  "Logs \<lparr>PodInfo = [], Events = None, Logs = Some ''''\<rparr> \<noteq> None \<and>
   logs_section \<lparr>PodInfo = [], Events = None, Logs = Some ''''\<rparr>
     ''hi\<newline>Pod Info: \<newline> {}\<newline> \<newline>'' = ''hi\<newline>Pod Info: \<newline> {}\<newline> \<newline>'' \<and>
   create_prompt demo_dump ''hi'' \<lparr>PodInfo = [], Events = None, Logs = Some ''''\<rparr> =
     ''hi\<newline>Pod Info: \<newline> {}\<newline> \<newline>''"
  by (simp add: create_prompt_def events_section_def logs_section_def py_truthy_def
      demo_dump_def)

text \<open>
  Claim C3, as the code has it. For every message and bundle, \<^verbatim>\<open>create_prompt\<close> emits the
  events section iff the bundle's events are present and not empty, and emits the logs
  section iff the bundle's logs are present and not the empty text. So a section that is
  absent from the bundle, or present and empty, is left out whole (the prompt is the one
  of the bundle without that entry), and no section is emitted empty. A block emits its
  section when it changes the prompt built so far.
\<close>

theorem create_prompt_sections_emitted:
  "(events_section info prompt \<noteq> prompt \<longleftrightarrow>
      (\<exists>events. Events info = Some events \<and> events \<noteq> [])) \<and>
   (logs_section info prompt \<noteq> prompt \<longleftrightarrow>
      (\<exists>logs. Logs info = Some logs \<and> logs \<noteq> [])) \<and>
   (create_prompt dump msg info \<noteq> create_prompt dump msg (info\<lparr>Events := None\<rparr>) \<longleftrightarrow>
      (\<exists>events. Events info = Some events \<and> events \<noteq> [])) \<and>
   (create_prompt dump msg info \<noteq> create_prompt dump msg (info\<lparr>Logs := None\<rparr>) \<longleftrightarrow>
      (\<exists>logs. Logs info = Some logs \<and> logs \<noteq> []))"
proof (intro conjI)
  show "events_section info prompt \<noteq> prompt \<longleftrightarrow>
      (\<exists>events. Events info = Some events \<and> events \<noteq> [])"
    by (simp add: events_section_def py_truthy_def for_events_append split: option.splits)
  show "logs_section info prompt \<noteq> prompt \<longleftrightarrow>
      (\<exists>logs. Logs info = Some logs \<and> logs \<noteq> [])"
    by (simp add: logs_section_def py_truthy_def split: option.splits)
  show "create_prompt dump msg info \<noteq> create_prompt dump msg (info\<lparr>Events := None\<rparr>) \<longleftrightarrow>
      (\<exists>events. Events info = Some events \<and> events \<noteq> [])"
    by (simp add: create_prompt_closed split: option.splits)
  show "create_prompt dump msg info \<noteq> create_prompt dump msg (info\<lparr>Logs := None\<rparr>) \<longleftrightarrow>
      (\<exists>logs. Logs info = Some logs \<and> logs \<noteq> [])"
    by (simp add: create_prompt_closed split: option.splits)
qed

text \<open>One event and an empty log text: the events section is emitted, the logs section
  is not.\<close>

theorem create_prompt_sections_emitted_witness:
  "create_prompt demo_dump ''why?''
     \<lparr>PodInfo = [],
      Events = Some [\<lparr>Name = Some ''ev1'', Message = Some ''assigned to node1'',
                       Reason = Some ''Scheduled''\<rparr>],
      Logs = Some ''''\<rparr> \<noteq>
   create_prompt demo_dump ''why?'' \<lparr>PodInfo = [], Events = None, Logs = Some ''''\<rparr> \<and>
   create_prompt demo_dump ''why?''
     \<lparr>PodInfo = [],
      Events = Some [\<lparr>Name = Some ''ev1'', Message = Some ''assigned to node1'',
                       Reason = Some ''Scheduled''\<rparr>],
      Logs = Some ''''\<rparr> =
   create_prompt demo_dump ''why?''
     \<lparr>PodInfo = [],
      Events = Some [\<lparr>Name = Some ''ev1'', Message = Some ''assigned to node1'',
                       Reason = Some ''Scheduled''\<rparr>],
      Logs = None\<rparr>"
  using create_prompt_sections_emitted [of
     "\<lparr>PodInfo = [],
      Events = Some [\<lparr>Name = Some ''ev1'', Message = Some ''assigned to node1'',
                       Reason = Some ''Scheduled''\<rparr>],
      Logs = Some ''''\<rparr>" "[]" demo_dump "''why?''"]
  by auto

text \<open>
  Claim C7. For every bundle, the string that \<^verbatim>\<open>create_prompt\<close> returns has its sections
  in one order: the message as it is and a line break; the pod information; then, if
  emitted, the events section, one line for each event in the bundle's order, of the form
  \<^verbatim>\<open>Event: <name>, Reason: <reason>, Message: <message>\<close>; then, if emitted, the logs section
  with the log text as it is.
\<close>

theorem create_prompt_section_order:
  "create_prompt dump msg info =
     msg @ ''\<newline>'' @
     ''Pod Info: \<newline> '' @ dump (PodInfo info) @ '' \<newline>'' @
     (case Events info of
        None \<Rightarrow> []
      | Some events \<Rightarrow>
          if events = [] then []
          else ''Here are the last few events for the pod: \<newline>'' @
               concat (map (\<lambda>event. ''Event: '' @ py_str (Name event) @
                                     '', Reason: '' @ py_str (Reason event) @
                                     '', Message: '' @ py_str (Message event) @ ''\<newline>'')
                         events)) @
     (case Logs info of
        None \<Rightarrow> []
      | Some logs \<Rightarrow>
          if logs = [] then []
          else ''Here are the last few logs for the pod: \<newline>'' @ logs)"
  by (simp add: create_prompt_closed event_line_def [abs_def] split: option.splits)

text \<open>Two events, the second without a message, and a log text.\<close>

theorem create_prompt_section_order_witness:
  "create_prompt demo_dump ''why?''
     \<lparr>PodInfo = [],
      Events = Some [\<lparr>Name = Some ''ev1'', Message = Some ''assigned to node1'',
                       Reason = Some ''Scheduled''\<rparr>,
                     \<lparr>Name = Some ''ev2'', Message = None, Reason = Some ''Pulled''\<rparr>],
      Logs = Some ''listening on :8080''\<rparr> =
   ''why?\<newline>Pod Info: \<newline> {}\<newline> \<newline>Here are the last few events for the pod: \<newline>Event: ev1, Reason: Scheduled, Message: assigned to node1\<newline>Event: ev2, Reason: Pulled, Message: None\<newline>Here are the last few logs for the pod: \<newline>listening on :8080''"
  using create_prompt_section_order [of demo_dump "''why?''"
     "\<lparr>PodInfo = [],
      Events = Some [\<lparr>Name = Some ''ev1'', Message = Some ''assigned to node1'',
                       Reason = Some ''Scheduled''\<rparr>,
                     \<lparr>Name = Some ''ev2'', Message = None, Reason = Some ''Pulled''\<rparr>],
      Logs = Some ''listening on :8080''\<rparr>"]
  by (simp add: demo_dump_def py_str_def)

section \<open>Properties of the session\<close>

text \<open>Picking the namespace \<^verbatim>\<open>kube-system\<close> while the pod \<^verbatim>\<open>web-1\<close> of \<^verbatim>\<open>default\<close> is
  selected: the handler succeeds, and the pod's value is still \<^verbatim>\<open>web-1\<close>. The component
  that \<^verbatim>\<open>namespace_change\<close> returns names the choices only.\<close>

theorem namespace_change_keeps_pod_counterexample:
  "pod_value (fst (snd (select_namespace demo_cluster ''kube-system''
      \<lparr>namespace_value = Some ''default'', pod_choices = [''web-1'', ''db-0''],
       pod_value = Some ''web-1'', include_events_value = False,
       include_logs_value = False\<rparr> []))) = Some ''web-1'' \<and>
   fst (select_namespace demo_cluster ''kube-system''
      \<lparr>namespace_value = Some ''default'', pod_choices = [''web-1'', ''db-0''],
       pod_value = Some ''web-1'', include_events_value = False,
       include_logs_value = False\<rparr> []) = Inr ()"
  by (simp add: select_namespace_def namespace_change_def list_pods_def apply_to_pod_def
      demo_cluster_def)

text \<open>
  Claim C2, as the code has it. Selecting a namespace, from any prior state, makes one
  call that lists the pods of the new namespace. When the call answers, the handler
  returns a dropdown update that names these pods as the choices and names no value, so
  the selectable pod list is replaced by the fetched one and the pod field of the
  selection is left as it was (it is not cleared). When the call fails, the error is
  raised and the pod dropdown is not touched.
\<close>

theorem namespace_change_refreshes_pods:
  "(\<forall>pods. list_namespaced_pod v1 val = Inr pods \<longrightarrow>
      namespace_change v1 val tr =
        (Inr \<lparr>upd_choices = Some pods, upd_value = None\<rparr>, tr @ [List_namespaced_pod val]) \<and>
      select_namespace v1 val st tr =
        (Inr (), st\<lparr>namespace_value := Some val, pod_choices := pods\<rparr>,
         tr @ [List_namespaced_pod val])) \<and>
   (\<forall>e. list_namespaced_pod v1 val = Inl e \<longrightarrow>
      select_namespace v1 val st tr =
        (Inl e, st\<lparr>namespace_value := Some val\<rparr>, tr @ [List_namespaced_pod val]))"
  by (simp add: select_namespace_def namespace_change_def list_pods_def apply_to_pod_def)

theorem namespace_change_refreshes_pods_witness:
  "select_namespace demo_cluster ''default''
      \<lparr>namespace_value = Some ''kube-system'', pod_choices = [],
       pod_value = Some ''coredns'', include_events_value = True,
       include_logs_value = False\<rparr> [] =
     (Inr (),
      \<lparr>namespace_value = Some ''default'', pod_choices = [''web-1'', ''db-0''],
       pod_value = Some ''coredns'', include_events_value = True,
       include_logs_value = False\<rparr>,
      [List_namespaced_pod ''default''])"
proof -
  have fetched: "list_namespaced_pod demo_cluster ''default'' = Inr [''web-1'', ''db-0'']"
    by (simp add: demo_cluster_def)
  from namespace_change_refreshes_pods [of demo_cluster "''default''" "[]"
      "\<lparr>namespace_value = Some ''kube-system'', pod_choices = [],
        pod_value = Some ''coredns'', include_events_value = True,
        include_logs_value = False\<rparr>"] fetched
  show ?thesis by simp
qed

text \<open>
  Claim C4. Submitting a message while the namespace or the pod is not selected
  (\<^verbatim>\<open>None\<close>, or the empty string), or submitting an empty message, returns normally:
  exactly one turn is added to the history, its response is
  \<^verbatim>\<open>Please select a namespace and pod.\<close>, its displayed request is the message, or
  \<^verbatim>\<open>Error\<close> when the message is empty; the record of calls is unchanged, so neither the
  cluster nor the completion service is called.
\<close>

theorem respond_validation:
  assumes "\<not> py_truthy namespace \<or> \<not> py_truthy pod \<or> message = []"
  shows "respond v1 openAiClient dump message chat_history namespace pod
           include_events include_logs tr =
         (Inr ('''', chat_history @
                [(if message = [] then ''Error'' else message,
                  ''Please select a namespace and pod.'')]), tr)"
  using assms by (auto simp: respond_def validation_message_def)

theorem respond_validation_witness:
  "respond demo_cluster demo_llm demo_dump ''why does it restart?'' [(''hello'', ''hi'')]
       (Some ''default'') None True True [] =
     (Inr ('''', [(''hello'', ''hi''),
                  (''why does it restart?'', ''Please select a namespace and pod.'')]), []) \<and>
   respond demo_cluster demo_llm demo_dump '''' [] (Some ''default'') (Some ''web-1'')
       True True [List_namespaced_pod ''default''] =
     (Inr ('''', [(''Error'', ''Please select a namespace and pod.'')]),
      [List_namespaced_pod ''default''])"
proof -
  have no_pod: "\<not> py_truthy (Some ''default'') \<or> \<not> py_truthy (None :: string option) \<or>
      ''why does it restart?'' = []"
    by (simp add: py_truthy_def)
  have no_message: "\<not> py_truthy (Some ''default'') \<or> \<not> py_truthy (Some ''web-1'') \<or>
      ('''' :: string) = []"
    by simp
  from respond_validation [OF no_pod] respond_validation [OF no_message]
  show ?thesis by simp
qed

text \<open>A question about a pod that is not there, with namespace and pod selected: the
  read of the pod raises inside \<^verbatim>\<open>call_llm\<close>, \<^verbatim>\<open>respond\<close> raises with it and returns no
  new content for the message box.\<close>

theorem respond_failed_read_counterexample:
  "respond demo_cluster demo_llm demo_dump ''why?'' [] (Some ''default'') (Some ''gone'')
     True False [] =
   (Inl (ApiException 404), [Read_namespaced_pod ''gone'' ''default''])"
  by (simp add: respond_def call_llm_def py_truthy_def demo_defs)

text \<open>
  Claim C10, as the code has it. Every submission that returns, returns the empty string
  as the new content of the message box. The validation path always returns, and with
  an empty message the displayed request it records is \<^verbatim>\<open>Error\<close>. The valid-message
  path returns when \<^verbatim>\<open>call_llm\<close> returns an answer, with the annotated request and the
  answer as the new turn; when a cluster read or the completion call fails, the
  exception leaves \<^verbatim>\<open>respond\<close> and nothing is returned.
\<close>

theorem respond_clears_message_box:
  "(\<forall>box history tr'.
      respond v1 openAiClient dump message chat_history namespace pod
        include_events include_logs tr = (Inr (box, history), tr') \<longrightarrow> box = '''') \<and>
   (\<not> py_truthy namespace \<or> \<not> py_truthy pod \<or> message = [] \<longrightarrow>
      (\<exists>history. respond v1 openAiClient dump message chat_history namespace pod
         include_events include_logs tr = (Inr ('''', history), tr))) \<and>
   (message = [] \<longrightarrow>
      respond v1 openAiClient dump message chat_history namespace pod
        include_events include_logs tr =
      (Inr ('''', chat_history @ [(''Error'', ''Please select a namespace and pod.'')]), tr)) \<and>
   (\<forall>ns p. namespace = Some ns \<and> pod = Some p \<and> ns \<noteq> [] \<and> p \<noteq> [] \<and> message \<noteq> [] \<longrightarrow>
      (\<forall>e tr'. call_llm v1 openAiClient dump message ns p include_events include_logs tr =
                  (Inl e, tr') \<longrightarrow>
          respond v1 openAiClient dump message chat_history namespace pod
            include_events include_logs tr = (Inl e, tr')) \<and>
      (\<forall>bot_message tr'.
          call_llm v1 openAiClient dump message ns p include_events include_logs tr =
            (Inr bot_message, tr') \<longrightarrow>
          respond v1 openAiClient dump message chat_history namespace pod
            include_events include_logs tr =
          (Inr ('''', chat_history @
             [(''Namespace '' @ ns @ '', Pod: '' @ p @
               '', Include Events: '' @ py_bool include_events @
               '', Include Logs: '' @ py_bool include_logs @ '' \<newline> '' @ message,
               bot_message)]), tr')))"
proof (intro conjI)
  show "\<forall>box history tr'.
      respond v1 openAiClient dump message chat_history namespace pod
        include_events include_logs tr = (Inr (box, history), tr') \<longrightarrow> box = ''''"
    by (auto simp: respond_def Let_def split: if_splits sum.splits prod.splits)
  show "\<not> py_truthy namespace \<or> \<not> py_truthy pod \<or> message = [] \<longrightarrow>
      (\<exists>history. respond v1 openAiClient dump message chat_history namespace pod
         include_events include_logs tr = (Inr ('''', history), tr))"
    by (auto simp: respond_def)
  show "message = [] \<longrightarrow>
      respond v1 openAiClient dump message chat_history namespace pod
        include_events include_logs tr =
      (Inr ('''', chat_history @ [(''Error'', ''Please select a namespace and pod.'')]), tr)"
    by (simp add: respond_def validation_message_def)
  show "\<forall>ns p. namespace = Some ns \<and> pod = Some p \<and> ns \<noteq> [] \<and> p \<noteq> [] \<and> message \<noteq> [] \<longrightarrow>
      (\<forall>e tr'. call_llm v1 openAiClient dump message ns p include_events include_logs tr =
                  (Inl e, tr') \<longrightarrow>
          respond v1 openAiClient dump message chat_history namespace pod
            include_events include_logs tr = (Inl e, tr')) \<and>
      (\<forall>bot_message tr'.
          call_llm v1 openAiClient dump message ns p include_events include_logs tr =
            (Inr bot_message, tr') \<longrightarrow>
          respond v1 openAiClient dump message chat_history namespace pod
            include_events include_logs tr =
          (Inr ('''', chat_history @
             [(''Namespace '' @ ns @ '', Pod: '' @ p @
               '', Include Events: '' @ py_bool include_events @
               '', Include Logs: '' @ py_bool include_logs @ '' \<newline> '' @ message,
               bot_message)]), tr'))"
    by (simp add: respond_def py_truthy_def py_str_def Let_def)
qed

text \<open>A question about \<^verbatim>\<open>db-0\<close> that is answered, and an empty message.\<close>

theorem respond_clears_message_box_witness:
  "respond demo_cluster demo_llm demo_dump ''why?'' [] (Some ''default'') (Some ''db-0'')
     False False [] =
   (Inr ('''',
      [(''Namespace default, Pod: db-0, Include Events: False, Include Logs: False \<newline> why?'',
        ''The pod is running.'')]),
    [Read_namespaced_pod ''db-0'' ''default'',
     Chat_completions_create system_content
       ''why?\<newline>Pod Info: \<newline> metadata: ...\<newline> \<newline>'']) \<and>
   respond demo_cluster demo_llm demo_dump '''' [] None None False False [] =
   (Inr ('''', [(''Error'', ''Please select a namespace and pod.'')]), [])"
proof -
  have run: "get_pod_info demo_cluster ''default'' ''db-0'' False False [] =
      (Inr \<lparr>PodInfo = [(''metadata'', VDict [(''name'', VStr ''db-0''),
                (''managed_fields'', VNone)])],
            Events = None, Logs = None\<rparr>,
       [Read_namespaced_pod ''db-0'' ''default''])"
    by (simp add: demo_defs)
  have composed: "create_prompt demo_dump ''why?''
      \<lparr>PodInfo = [(''metadata'', VDict [(''name'', VStr ''db-0''), (''managed_fields'', VNone)])],
       Events = None, Logs = None\<rparr> =
      ''why?\<newline>Pod Info: \<newline> metadata: ...\<newline> \<newline>''"
    by (simp add: create_prompt_def events_section_def logs_section_def py_truthy_def
        demo_dump_def)
  have answered: "call_llm demo_cluster demo_llm demo_dump ''why?'' ''default'' ''db-0''
      False False [] =
      (Inr ''The pod is running.'',
       [Read_namespaced_pod ''db-0'' ''default'',
        Chat_completions_create system_content
          ''why?\<newline>Pod Info: \<newline> metadata: ...\<newline> \<newline>''])"
    using call_llm_trace [OF run, of demo_llm demo_dump "''why?''"] composed
    by (simp add: demo_llm_def)
  from respond_clears_message_box [of demo_cluster demo_llm demo_dump "''why?''" "[]"
      "Some ''default''" "Some ''db-0''" False False "[]"] answered
    respond_clears_message_box [of demo_cluster demo_llm demo_dump "''''" "[]"
      None None False False "[]"]
  show ?thesis by (simp add: py_bool_def)
qed

end
